theory Spec2Isabelle
  imports Main
begin

section \<open>Python values, exceptions and observable effects\<close>

text \<open>
  The retrieve-then-generate pipeline of \<^verbatim>\<open>backend/agent.py\<close>, its HTTP endpoint
  (\<^verbatim>\<open>backend/server.py\<close>), its tool endpoint (\<^verbatim>\<open>backend/mcp_server.py\<close>) and the
  start-up checks of \<^verbatim>\<open>backend/agent.py\<close> and \<^verbatim>\<open>backend/ingest.py\<close>.

  A Python \<^verbatim>\<open>str\<close> is a \<^typ>\<open>string\<close>; one \<^typ>\<open>char\<close> stands for one character of
  the Python string, so \<^const>\<open>length\<close> is \<^verbatim>\<open>len\<close> and \<^const>\<open>take\<close> is a slice
  \<^verbatim>\<open>s[:n]\<close>. Metadata values are \<^verbatim>\<open>Any\<close> in the source; the model has the
  values \<^verbatim>\<open>None\<close>, booleans, integers and strings.
\<close>

datatype pyval = PNone | PBool bool | PInt int | PStr string

text \<open>
  Exceptions are values. \<open>ServiceError\<close> is any exception raised inside an external
  client (vector index, language model, document loader, text splitter).
\<close>

datatype error =
    ValueError string
  | IndexError string
  | TypeError string
  | ZeroDivisionError string
  | ValidationError string
  | ServiceError string
  | GraphRecursionError string
  | HTTPException nat string

text \<open>\<^verbatim>\<open>str(e)\<close> of an exception: its message.\<close>

fun exc_str :: "error \<Rightarrow> string" where
  "exc_str (ValueError m) = m"
| "exc_str (IndexError m) = m"
| "exc_str (TypeError m) = m"
| "exc_str (ZeroDivisionError m) = m"
| "exc_str (ValidationError m) = m"
| "exc_str (ServiceError m) = m"
| "exc_str (GraphRecursionError m) = m"
| "exc_str (HTTPException c m) = m"

text \<open>Decimal formatting of integers, as \<^verbatim>\<open>str\<close> and f-strings do it.\<close>

definition digit_char :: "nat \<Rightarrow> char" where
  "digit_char d = ''0123456789'' ! d"

fun str_nat :: "nat \<Rightarrow> string" where
  "str_nat n = (if n < 10 then [digit_char n] else str_nat (n div 10) @ [digit_char (n mod 10)])"

declare str_nat.simps [simp del]

definition str_int :: "int \<Rightarrow> string" where
  "str_int i = (if i < 0 then ''-'' @ str_nat (nat (- i)) else str_nat (nat i))"

fun py_str :: "pyval \<Rightarrow> string" where
  "py_str PNone = ''None''"
| "py_str (PBool b) = (if b then ''True'' else ''False'')"
| "py_str (PInt i) = str_int i"
| "py_str (PStr s) = s"

text \<open>\<^verbatim>\<open>d.get(k, default)\<close> on a dictionary.\<close>

definition dict_get :: "('k \<rightharpoonup> 'v) \<Rightarrow> 'k \<Rightarrow> 'v \<Rightarrow> 'v" where
  "dict_get d k dflt = (case d k of None \<Rightarrow> dflt | Some v \<Rightarrow> v)"

text \<open>\<^verbatim>\<open>sep.join(xs)\<close>.\<close>

fun str_join :: "string \<Rightarrow> string list \<Rightarrow> string" where
  "str_join sep [] = []"
| "str_join sep [x] = x"
| "str_join sep (x # y # ys) = x @ sep @ str_join sep (y # ys)"

text \<open>\<^verbatim>\<open>xs[-1]\<close>: the last element, \<^verbatim>\<open>IndexError\<close> on the empty list.\<close>

definition last_item :: "'a list \<Rightarrow> error + 'a" where
  "last_item xs = (if xs = [] then Inl (IndexError ''list index out of range'') else Inr (last xs))"

section \<open>Data model of \<^verbatim>\<open>agent.py\<close>\<close>

datatype message = HumanMessage (content: string) | AIMessage (content: string)

text \<open>A retrieved passage: a LangChain \<^verbatim>\<open>Document\<close>.\<close>

record doc =
  page_content :: string
  metadata :: "string \<rightharpoonup> pyval"

text \<open>
  The dictionary appended to \<^verbatim>\<open>sources\<close> in \<^verbatim>\<open>retrieve\<close>. Its \<^verbatim>\<open>document\<close> entry
  is whatever the metadata holds (it is not passed through \<^verbatim>\<open>str\<close>), the other
  entries are strings.
\<close>

record source =
  ref :: string
  document :: pyval
  page :: string
  content_preview :: string

record agent_state =
  messages :: "message list"
  context_text :: string
  sources :: "source list"

text \<open>
  What a graph node returns: a dictionary with some of the state's keys. The graph
  overwrites those keys of the state (\<^verbatim>\<open>AgentState\<close> declares no reducer).
\<close>

record update =
  upd_messages :: "message list option"
  upd_context :: "string option"
  upd_sources :: "source list option"

definition apply_update :: "agent_state \<Rightarrow> update \<Rightarrow> agent_state" where
  "apply_update st u =
     \<lparr> messages = (case upd_messages u of None \<Rightarrow> messages st | Some m \<Rightarrow> m),
       context_text = (case upd_context u of None \<Rightarrow> context_text st | Some c \<Rightarrow> c),
       sources = (case upd_sources u of None \<Rightarrow> sources st | Some s \<Rightarrow> s) \<rparr>"

text \<open>
  The effects a run can be observed by: the lines it prints, the calls it makes to the
  similarity search (query and \<^verbatim>\<open>k\<close>) and to the language model (the messages sent),
  the calls of the tool endpoint to the demo responder, and the calls of the ingestion
  job to the file system, the loader, the chunker and the Pinecone client.
\<close>

datatype event =
    Print string
  | SearchCall string nat
  | LLMCall "message list"
  | DemoCall string
  | MakeDirs string
  | LoaderLoad string
  | SplitDocuments nat
  | ListIndexes
  | CreateIndex string
  | DescribeIndex string
  | Sleep nat
  | FromDocuments nat string

text \<open>A computation: the events it performed, then an exception or a value.\<close>

type_synonym 'a io = "event list \<times> (error + 'a)"

definition io_return :: "'a \<Rightarrow> 'a io" where
  "io_return x = ([], Inr x)"

definition io_raise :: "error \<Rightarrow> 'a io" where
  "io_raise e = ([], Inl e)"

definition io_emit :: "event \<Rightarrow> unit io" where
  "io_emit ev = ([ev], Inr ())"

definition io_bind :: "'a io \<Rightarrow> ('a \<Rightarrow> 'b io) \<Rightarrow> 'b io" where
  "io_bind m f =
     (case snd m of
        Inl e \<Rightarrow> (fst m, Inl e)
      | Inr x \<Rightarrow> (fst m @ fst (f x), snd (f x)))"

text \<open>
  The external clients built at module load: \<^verbatim>\<open>vectorstore.similarity_search\<close> and
  \<^verbatim>\<open>llm.invoke\<close>. Each either raises or returns.
\<close>

record services =
  similarity_search :: "string \<Rightarrow> nat \<Rightarrow> error + doc list"
  llm_invoke :: "message list \<Rightarrow> error + message"

definition call_search :: "services \<Rightarrow> string \<Rightarrow> nat \<Rightarrow> doc list io" where
  "call_search svc q k = ([SearchCall q k], similarity_search svc q k)"

definition call_llm :: "services \<Rightarrow> message list \<Rightarrow> message io" where
  "call_llm svc ms = ([LLMCall ms], llm_invoke svc ms)"

section \<open>The retrieval stage\<close>

text \<open>
  The loop \<^verbatim>\<open>for i, doc in enumerate(docs)\<close> of \<^verbatim>\<open>retrieve\<close>, with its two
  accumulators.
\<close>

fun retrieve_loop :: "nat \<Rightarrow> doc list \<Rightarrow> string list \<Rightarrow> source list \<Rightarrow> string list \<times> source list" where
  "retrieve_loop i [] context_with_sources srcs = (context_with_sources, srcs)"
| "retrieve_loop i (d # docs) context_with_sources srcs =
     (let source_ref = ''['' @ str_nat (i + 1) @ '']''
      in retrieve_loop (i + 1) docs
           (context_with_sources @ [source_ref @ '' '' @ page_content d])
           (srcs @
            [\<lparr> ref = source_ref,
               document = dict_get (metadata d) ''source'' (PStr ''Unknown Document''),
               page = py_str (dict_get (metadata d) ''page'' (PStr ''N/A'')),
               content_preview =
                 (if length (page_content d) > 200 then take 200 (page_content d) @ ''...''
                  else page_content d) \<rparr>]))"

definition retrieve :: "services \<Rightarrow> agent_state \<Rightarrow> update io" where
  "retrieve svc state =
     io_bind (io_emit (Print ''--- RETRIEVING ---'')) (\<lambda>_.
     io_bind ([], last_item (messages state)) (\<lambda>m.
     io_bind (call_search svc (content m) 10) (\<lambda>docs.
       (case retrieve_loop 0 docs [] [] of
          (context_with_sources, srcs) \<Rightarrow>
            io_return \<lparr> upd_messages = None,
                        upd_context = Some (str_join ''\<newline>\<newline>'' context_with_sources),
                        upd_sources = Some srcs \<rparr>))))"

section \<open>The generation stage\<close>

text \<open>The fixed instruction block of \<^verbatim>\<open>generate\<close>, up to the context.\<close>

definition prompt_head :: string where
  \<open>prompt_head =
     ''You are an expert material science and steel engineer specializing in:\<newline>'' @
     ''- ASTM steel standards (A106, A53, A333, A516, etc.)\<newline>'' @
     ''- ASME pressure vessel and piping codes (B31.3, Section VIII)\<newline>'' @
     ''- API specifications (5L, 5CT, 650)\<newline>'' @
     ''- NACE corrosion standards (MR0175, SP0169)\<newline>'' @
     ''\<newline>'' @
     ''CRITICAL INSTRUCTION: Always cite your sources using [1], [2], etc. reference numbers that correspond to the context provided.\<newline>'' @
     ''\<newline>'' @
     ''When answering:\<newline>'' @
     ''1. Cite the specific standard/document for each claim using [N] references\<newline>'' @
     ''2. Include exact values (yield strength, chemical composition, hardness limits) when available\<newline>'' @
     ''3. For compliance questions, state PASS/FAIL with the specific clause/section that applies\<newline>'' @
     ''4. If information conflicts between sources, note the discrepancy\<newline>'' @
     ''5. If uncertain, say "Based on [N], but recommend verification with original document"\<newline>'' @
     ''\<newline>'' @
     ''Context (with source references):\<newline>''\<close>

definition build_prompt :: "string \<Rightarrow> string \<Rightarrow> string" where
  "build_prompt context question =
     prompt_head @ context @ ''\<newline>\<newline>Question: '' @ question @
     ''\<newline>\<newline>Answer with citations:''"

definition generate :: "services \<Rightarrow> agent_state \<Rightarrow> update io" where
  "generate svc state =
     io_bind (io_emit (Print ''--- GENERATING ---'')) (\<lambda>_.
     io_bind ([], last_item (messages state)) (\<lambda>m.
     io_bind (call_llm svc [HumanMessage (build_prompt (context_text state) (content m))]) (\<lambda>response.
       io_return \<lparr> upd_messages = Some [response], upd_context = None, upd_sources = None \<rparr>)))"

section \<open>The graph and \<^verbatim>\<open>run_agent\<close>\<close>

text \<open>
  The \<^verbatim>\<open>workflow\<close> graph: two nodes, entry point \<^verbatim>\<open>retrieve\<close>, an edge from
  \<^verbatim>\<open>retrieve\<close> to \<^verbatim>\<open>generate\<close> and one from \<^verbatim>\<open>generate\<close> to \<^verbatim>\<open>END\<close>.
\<close>

datatype node = Retrieve | Generate | END

definition entry_point :: node where
  "entry_point = Retrieve"

fun edge :: "node \<Rightarrow> node" where
  "edge Retrieve = Generate"
| "edge Generate = END"
| "edge END = END"

fun run_node :: "services \<Rightarrow> node \<Rightarrow> agent_state \<Rightarrow> update io" where
  "run_node svc Retrieve st = retrieve svc st"
| "run_node svc Generate st = generate svc st"
| "run_node svc END st = io_return \<lparr> upd_messages = None, upd_context = None, upd_sources = None \<rparr>"

text \<open>
  Running the compiled graph from a node: run the node, overwrite the state with what it
  returned, follow the edge, until \<^verbatim>\<open>END\<close>. An exception raised in a node ends the
  run. The graph library bounds the number of steps of one run (\<^verbatim>\<open>recursion_limit\<close>,
  25 unless configured) and raises when the bound is reached.
\<close>

fun invoke_from :: "nat \<Rightarrow> services \<Rightarrow> node \<Rightarrow> agent_state \<Rightarrow> agent_state io" where
  "invoke_from fuel svc END st = io_return st"
| "invoke_from 0 svc n st = io_raise (GraphRecursionError ''Recursion limit reached'')"
| "invoke_from (Suc fuel) svc n st =
     io_bind (run_node svc n st) (\<lambda>u. invoke_from fuel svc (edge n) (apply_update st u))"

definition recursion_limit :: nat where
  "recursion_limit = 25"

definition app_invoke :: "services \<Rightarrow> agent_state \<Rightarrow> agent_state io" where
  "app_invoke svc inputs = invoke_from recursion_limit svc entry_point inputs"

text \<open>The dictionary \<^verbatim>\<open>run_agent\<close> returns.\<close>

record agent_result =
  res_response :: string
  res_sources :: "source list"

definition run_agent :: "services \<Rightarrow> string \<Rightarrow> agent_result io" where
  "run_agent svc query =
     io_bind (app_invoke svc \<lparr> messages = [HumanMessage query], context_text = [], sources = [] \<rparr>) (\<lambda>result.
     io_bind ([], last_item (messages result)) (\<lambda>m.
       io_return \<lparr> res_response = content m, res_sources = sources result \<rparr>))"

section \<open>The HTTP endpoint of \<^verbatim>\<open>server.py\<close>\<close>

text \<open>
  The response models \<^verbatim>\<open>Source\<close> and \<^verbatim>\<open>ChatResponse\<close>: every field is declared
  \<^verbatim>\<open>str\<close>. Building a \<^verbatim>\<open>Source\<close> from a dictionary of \<^verbatim>\<open>retrieve\<close> validates the
  fields; the only one that may hold something else than a string is \<^verbatim>\<open>document\<close>, and
  a value that is not a string is rejected with a validation error (the models are
  written for the second major version of the validation library, which does not convert
  other values to strings).
\<close>

record api_source =
  api_ref :: string
  api_document :: string
  api_page :: string
  api_content_preview :: string

record chat_response =
  chat_text :: string
  chat_sources :: "api_source list"

definition Source_model :: "source \<Rightarrow> error + api_source" where
  "Source_model s =
     (case document s of
        PStr d \<Rightarrow> Inr \<lparr> api_ref = ref s, api_document = d, api_page = page s,
                       api_content_preview = content_preview s \<rparr>
      | _ \<Rightarrow> Inl (ValidationError ''document: Input should be a valid string''))"

text \<open>The comprehension \<^verbatim>\<open>[Source(**s) for s in result["sources"]]\<close>.\<close>

fun Source_models :: "source list \<Rightarrow> error + api_source list" where
  "Source_models [] = Inr []"
| "Source_models (s # ss) =
     (case Source_model s of
        Inl e \<Rightarrow> Inl e
      | Inr a \<Rightarrow> (case Source_models ss of Inl e \<Rightarrow> Inl e | Inr as \<Rightarrow> Inr (a # as)))"

text \<open>\<^verbatim>\<open>try: ... except Exception as e: raise HTTPException(500, str(e))\<close>.\<close>

definition chat :: "services \<Rightarrow> string \<Rightarrow> chat_response io" where
  "chat svc query =
     (let body =
            io_bind (run_agent svc query) (\<lambda>result.
            io_bind ([], Source_models (res_sources result)) (\<lambda>ss.
              io_return \<lparr> chat_text = res_response result, chat_sources = ss \<rparr>))
      in case snd body of
           Inl e \<Rightarrow> (fst body, Inl (HTTPException 500 (exc_str e)))
         | Inr r \<Rightarrow> (fst body, Inr r))"

section \<open>The tool endpoint of \<^verbatim>\<open>mcp_server.py\<close>\<close>

text \<open>
  The \<^verbatim>\<open>arguments\<close> dictionary of a tool call, with the keys and types the input
  schemas of \<^verbatim>\<open>list_tools\<close> declare; \<^const>\<open>None\<close> is an absent key.
\<close>

record arguments =
  arg_query :: "string option"
  arg_material :: "string option"
  arg_standard :: "string option"
  arg_requirements :: "string option"
  arg_materials :: "string list option"
  arg_properties :: "string list option"

text \<open>
  What the tool endpoint runs on. \<^verbatim>\<open>HAS_REAL_BACKEND\<close> is fixed at module load;
  \<^verbatim>\<open>get_demo_response\<close> is imported from the server module, which does not define it in
  this version of the repository, so it is a parameter here, as is the optional
  \<^verbatim>\<open>list_documents\<close> method of the vector store (\<^const>\<open>None\<close>: no such attribute).
\<close>

record listing =
  listing_name :: string
  listing_pages :: "pyval option"
  listing_status :: "pyval option"

record backend =
  HAS_REAL_BACKEND :: bool
  backend_services :: services
  get_demo_response :: "string \<Rightarrow> error + agent_result"
  vectorstore_list_documents :: "(error + listing list) option"

datatype text_content = TextContent string

text \<open>
  The block each query tool repeats: the pipeline when there is a real backend, the demo
  responder otherwise. \<^verbatim>\<open>run_agent\<close> returns a dictionary with both keys, so the
  \<^verbatim>\<open>isinstance\<close> and \<^verbatim>\<open>get\<close> fallbacks select its entries.
\<close>

definition backend_query :: "backend \<Rightarrow> string \<Rightarrow> agent_result io" where
  "backend_query be query =
     (if HAS_REAL_BACKEND be then run_agent (backend_services be) query
      else ([DemoCall query], get_demo_response be query))"

text \<open>The loop \<^verbatim>\<open>for source in sources: output += ...\<close>.\<close>

fun source_lines :: "string \<Rightarrow> source list \<Rightarrow> string" where
  "source_lines output [] = output"
| "source_lines output (s # ss) =
     source_lines
       (output @ ''- '' @ ref s @ '' '' @ py_str (document s) @ '' (p. '' @ page s @ '')\<newline>'') ss"

definition with_sources :: "string \<Rightarrow> string \<Rightarrow> source list \<Rightarrow> string" where
  "with_sources output header srcs =
     (if srcs \<noteq> [] then source_lines (output @ header) srcs else output)"

fun listing_lines :: "string \<Rightarrow> listing list \<Rightarrow> string" where
  "listing_lines output [] = output"
| "listing_lines output (d # ds) =
     listing_lines
       (output @ ''- '' @ listing_name d @ '' ('' @
          py_str (case listing_pages d of None \<Rightarrow> PStr ''N/A'' | Some v \<Rightarrow> v) @ '' pages) - '' @
          py_str (case listing_status d of None \<Rightarrow> PStr ''indexed'' | Some v \<Rightarrow> v) @ ''\<newline>'') ds"

definition demo_documents :: "listing list" where
  "demo_documents =
     [\<lparr> listing_name = ''ASTM_A106.pdf'', listing_pages = Some (PInt 12), listing_status = Some (PStr ''indexed'') \<rparr>,
      \<lparr> listing_name = ''ASTM_A53.pdf'', listing_pages = Some (PInt 8), listing_status = Some (PStr ''indexed'') \<rparr>,
      \<lparr> listing_name = ''NACE_MR0175_ISO15156.pdf'', listing_pages = Some (PInt 45), listing_status = Some (PStr ''indexed'') \<rparr>,
      \<lparr> listing_name = ''AISI_4140_DataSheet.pdf'', listing_pages = Some (PInt 4), listing_status = Some (PStr ''indexed'') \<rparr>,
      \<lparr> listing_name = ''ASTM_A333.pdf'', listing_pages = Some (PInt 10), listing_status = Some (PStr ''indexed'') \<rparr>]"

definition call_tool :: "backend \<Rightarrow> string \<Rightarrow> arguments \<Rightarrow> text_content list io" where
  "call_tool be name args =
     (if name = ''query_steel_specs'' then
        (let query = (case arg_query args of None \<Rightarrow> [] | Some q \<Rightarrow> q)
         in io_bind (backend_query be query) (\<lambda>result.
              io_return
                [TextContent
                   (with_sources (''**Response:**\<newline>'' @ res_response result @ ''\<newline>\<newline>'')
                      ''**Sources:**\<newline>'' (res_sources result))]))
      else if name = ''check_compliance'' then
        (let material = (case arg_material args of None \<Rightarrow> [] | Some m \<Rightarrow> m);
             standard = (case arg_standard args of None \<Rightarrow> [] | Some s \<Rightarrow> s);
             requirements = (case arg_requirements args of None \<Rightarrow> [] | Some r \<Rightarrow> r);
             query = ''Does '' @ material @ '' meet '' @ standard @ '' requirements'' @
                     (if requirements \<noteq> [] then '' for '' @ requirements else []) @ ''?''
         in io_bind (backend_query be query) (\<lambda>result.
              io_return
                [TextContent
                   (with_sources
                      (''**Compliance Check: '' @ material @ '' vs '' @ standard @ ''**\<newline>\<newline>'' @
                       res_response result @ ''\<newline>\<newline>'')
                      ''**Reference Documents:**\<newline>'' (res_sources result))]))
      else if name = ''compare_materials'' then
        (let materials = (case arg_materials args of None \<Rightarrow> [] | Some ms \<Rightarrow> ms);
             properties = (case arg_properties args of
                             None \<Rightarrow> [''yield strength'', ''tensile strength'']
                           | Some ps \<Rightarrow> ps)
         in if length materials < 2 then
              io_return [TextContent ''Error: Please provide at least 2 materials to compare.'']
            else
              (let materials_str = str_join '' and '' materials;
                   props_str = (if properties \<noteq> [] then str_join '', '' properties else ''properties'');
                   query = ''Compare '' @ materials_str @ '' for '' @ props_str
               in io_bind (backend_query be query) (\<lambda>result.
                    io_return
                      [TextContent
                         (with_sources
                            (''**Material Comparison: '' @ materials_str @ ''**\<newline>\<newline>'' @
                             res_response result @ ''\<newline>\<newline>'')
                            ''**Sources:**\<newline>'' (res_sources result))])))
      else if name = ''list_documents'' then
        io_bind
          ([], case (if HAS_REAL_BACKEND be then vectorstore_list_documents be else None) of
                 Some listed \<Rightarrow> listed
               | None \<Rightarrow> Inr demo_documents) (\<lambda>docs.
          io_return
            [TextContent
               (listing_lines ''**Indexed Documents:**\<newline>\<newline>'' docs @
                ''\<newline>*Mode: '' @ (if HAS_REAL_BACKEND be then ''production'' else ''demo'') @ ''*'')])
      else if name = ''get_health'' then
        io_return
          [TextContent
             (''**Steel Knowledge Backend Health**\<newline>\<newline>'' @
              ''- Status: ok\<newline>'' @
              ''- Version: 1.0.0\<newline>'' @
              ''- Mode: '' @ (if HAS_REAL_BACKEND be then ''production'' else ''demo'') @ ''\<newline>'' @
              ''- Pinecone: '' @ (if HAS_REAL_BACKEND be then ''Connected'' else ''Not connected'') @ ''\<newline>'' @
              ''- Google AI: '' @ (if HAS_REAL_BACKEND be then ''Connected'' else ''Not connected'') @ ''\<newline>'')]
      else io_return [TextContent (''Unknown tool: '' @ name)])"

section \<open>Start-up of the query process\<close>

text \<open>
  \<^verbatim>\<open>os.environ\<close> after \<^verbatim>\<open>load_dotenv()\<close>. \<^verbatim>\<open>not x\<close> holds of a value read with
  \<^verbatim>\<open>os.getenv\<close> when the variable is unset or empty.
\<close>

type_synonym environ = "string \<rightharpoonup> string"

definition getenv :: "environ \<Rightarrow> string \<Rightarrow> string option" where
  "getenv env k = env k"

definition truthy :: "string option \<Rightarrow> bool" where
  "truthy v = (case v of None \<Rightarrow> False | Some s \<Rightarrow> s \<noteq> [])"

text \<open>
  Loading \<^verbatim>\<open>agent.py\<close>: the configuration block, the check of \<^verbatim>\<open>GOOGLE_API_KEY\<close>,
  then the construction of the language model, the embeddings and the vector store for
  the index name. The constructors are external: \<open>connect\<close> gets the environment
  and the index name, and raises or returns the clients.
\<close>

definition agent_module :: "environ \<Rightarrow> (environ \<Rightarrow> string \<Rightarrow> error + services) \<Rightarrow> error + services" where
  "agent_module env connect =
     (let GOOGLE_API_KEY = getenv env ''GOOGLE_API_KEY'';
          PINECONE_INDEX_NAME = dict_get env ''PINECONE_INDEX_NAME'' ''steel-index''
      in if \<not> truthy GOOGLE_API_KEY then Inl (ValueError ''GOOGLE_API_KEY missing'')
         else connect env PINECONE_INDEX_NAME)"

text \<open>
  Loading \<^verbatim>\<open>server.py\<close> imports \<^verbatim>\<open>run_agent\<close> from the agent module: an exception
  there leaves no application; otherwise the \<^verbatim>\<open>/api/chat\<close> handler serves queries.
\<close>

definition server_module ::
  "environ \<Rightarrow> (environ \<Rightarrow> string \<Rightarrow> error + services) \<Rightarrow> error + (string \<Rightarrow> chat_response io)" where
  "server_module env connect =
     (case agent_module env connect of Inl e \<Rightarrow> Inl e | Inr svc \<Rightarrow> Inr (chat svc))"

section \<open>The ingestion job of \<^verbatim>\<open>ingest.py\<close>\<close>

record ingest_config =
  GOOGLE_API_KEY :: "string option"
  PINECONE_API_KEY :: "string option"
  INDEX_NAME :: string
  DATA_DIR :: string

definition ingest_module :: "environ \<Rightarrow> error + ingest_config" where
  "ingest_module env =
     (let g = getenv env ''GOOGLE_API_KEY'';
          p = getenv env ''PINECONE_API_KEY'';
          idx = dict_get env ''PINECONE_INDEX_NAME'' ''steel-index''
      in if \<not> truthy g then Inl (ValueError ''GOOGLE_API_KEY not found in .env'')
         else Inr \<lparr> GOOGLE_API_KEY = g, PINECONE_API_KEY = p, INDEX_NAME = idx, DATA_DIR = ''./data'' \<rparr>)"

text \<open>
  What the job reads from outside: the file system (\<^verbatim>\<open>os.path.exists\<close>, the recursive
  glob for PDF files, \<^verbatim>\<open>Path(p).name\<close>), the directory loader, the clock, the
  semantic chunker (with the embeddings it is built on) and the Pinecone client
  (\<^verbatim>\<open>list_indexes\<close> of the client built with the API key, \<^verbatim>\<open>create_index\<close>, the
  readiness reported by the n-th call of \<^verbatim>\<open>describe_index\<close>, \<^verbatim>\<open>from_documents\<close>).
\<close>

record ingest_world =
  path_exists :: "string \<Rightarrow> bool"
  glob_pdf :: "string \<Rightarrow> string list"
  path_name :: "string \<Rightarrow> string"
  loader_load :: "string \<Rightarrow> error + doc list"
  now_isoformat :: string
  split_documents :: "doc list \<Rightarrow> error + doc list"
  list_indexes :: "string option \<Rightarrow> error + string list"
  create_index :: "string \<Rightarrow> error + unit"
  describe_index_ready :: "string \<Rightarrow> nat \<Rightarrow> error + bool"
  from_documents :: "doc list \<Rightarrow> string \<Rightarrow> error + unit"

definition prints :: "string list \<Rightarrow> unit io" where
  "prints ls = (map Print ls, Inr ())"

text \<open>The body of the loop of \<^verbatim>\<open>enrich_metadata\<close> for one document.\<close>

definition enrich_doc :: "ingest_world \<Rightarrow> doc \<Rightarrow> error + doc" where
  "enrich_doc w d =
     (let md = metadata d;
          named = (\<lambda>s. Inr (md(''filename'' \<mapsto> PStr (path_name w s), ''source'' \<mapsto> PStr (path_name w s))));
          no_path = Inl (TypeError ''expected str, bytes or os.PathLike object'')
      in case (case dict_get md ''source'' (PStr []) of
                 PStr s \<Rightarrow> if s \<noteq> [] then named s else Inr md
               | PNone \<Rightarrow> Inr md
               | PBool b \<Rightarrow> if b then no_path else Inr md
               | PInt i \<Rightarrow> if i \<noteq> 0 then no_path else Inr md) of
           Inl e \<Rightarrow> Inl e
         | Inr md1 \<Rightarrow>
             (case (case dict_get md1 ''page'' (PInt 0) of
                      PInt p \<Rightarrow> Inr (PInt (p + 1))
                    | PBool b \<Rightarrow> Inr (PInt ((if b then 1 else 0) + 1))
                    | PStr s \<Rightarrow> Inl (TypeError ''can only concatenate str to str'')
                    | PNone \<Rightarrow> Inl (TypeError ''unsupported operand type(s) for +'')) of
                Inl e \<Rightarrow> Inl e
              | Inr page1 \<Rightarrow>
                  Inr (d\<lparr> metadata := md1(''page'' \<mapsto> page1, ''ingested_at'' \<mapsto> PStr (now_isoformat w)) \<rparr>)))"

fun enrich_metadata :: "ingest_world \<Rightarrow> doc list \<Rightarrow> error + doc list" where
  "enrich_metadata w [] = Inr []"
| "enrich_metadata w (d # ds) =
     (case enrich_doc w d of
        Inl e \<Rightarrow> Inl e
      | Inr d1 \<Rightarrow> (case enrich_metadata w ds of Inl e \<Rightarrow> Inl e | Inr ds1 \<Rightarrow> Inr (d1 # ds1)))"

text \<open>
  \<^verbatim>\<open>ingest_data\<close> up to and including the check of \<^verbatim>\<open>PINECONE_API_KEY\<close>. The value
  is \<^const>\<open>None\<close> when the function has returned, and the PDF files, pages and chunks
  when it goes on to the upload.
\<close>

definition ingest_front ::
  "ingest_config \<Rightarrow> ingest_world \<Rightarrow> (string list \<times> doc list \<times> doc list) option io" where
  "ingest_front cfg w =
     io_bind (prints [replicate 60 CHR ''='', ''SteelIntel Document Ingestion'', replicate 60 CHR ''='']) (\<lambda>_.
     if \<not> path_exists w (DATA_DIR cfg) then
       io_bind (io_emit (MakeDirs (DATA_DIR cfg))) (\<lambda>_.
       io_bind (prints [''Created '' @ DATA_DIR cfg @ ''/ directory.'',
                        ''Please add PDF documents to this folder and run again.'']) (\<lambda>_.
         io_return None))
     else
       (let pdf_files = glob_pdf w (DATA_DIR cfg)
        in if pdf_files = [] then
             io_bind (prints [''No PDF files found in '' @ DATA_DIR cfg @ ''/'',
                              ''Please add PDF documents and run again.'']) (\<lambda>_.
               io_return None)
           else
             io_bind (prints ([''Found '' @ str_nat (length pdf_files) @ '' PDF files:''] @
                              map (\<lambda>f. ''  - '' @ path_name w f) pdf_files @
                              [[], ''Loading documents...''])) (\<lambda>_.
             io_bind ([LoaderLoad (DATA_DIR cfg)], loader_load w (DATA_DIR cfg)) (\<lambda>docs0.
             if docs0 = [] then
               io_bind (prints [''Failed to load any documents.'']) (\<lambda>_. io_return None)
             else
               io_bind (prints [''Loaded '' @ str_nat (length docs0) @ '' pages from '' @
                                  str_nat (length pdf_files) @ '' files.'',
                                ''Enriching metadata...'']) (\<lambda>_.
               io_bind ([], enrich_metadata w docs0) (\<lambda>docs.
               io_bind (prints ((case docs of
                                   [] \<Rightarrow> []
                                 | sample # _ \<Rightarrow>
                                     [''Sample metadata: source='' @
                                        py_str (dict_get (metadata sample) ''source'' PNone) @
                                        '', page='' @
                                        py_str (dict_get (metadata sample) ''page'' PNone)]) @
                                [''\<newline>Performing semantic chunking (this may take a while)...''])) (\<lambda>_.
               io_bind ([SplitDocuments (length docs)], split_documents w docs) (\<lambda>chunks.
               io_bind (prints [''Created '' @ str_nat (length chunks) @ '' semantic chunks.'']) (\<lambda>_.
               io_bind ([], if chunks = []
                            then Inl (ZeroDivisionError ''integer division or modulo by zero'')
                            else Inr (sum_list (map (\<lambda>c. length (page_content c)) chunks)
                                        div length chunks)) (\<lambda>average.
               io_bind (prints [''Average chunk size: '' @ str_nat average @ '' characters'',
                                ''\<newline>Connecting to Pinecone...'']) (\<lambda>_.
               if \<not> truthy (PINECONE_API_KEY cfg) then
                 io_bind (prints [''PINECONE_API_KEY is missing. Skipping upload.'']) (\<lambda>_.
                   io_return None)
               else io_return (Some (pdf_files, docs, chunks)))))))))))))"

text \<open>
  The loop \<^verbatim>\<open>while not pc.describe_index(INDEX_NAME).status["ready"]: time.sleep(1)\<close>.
  It ends when a call reports the index ready or raises; it has no bound.
\<close>

partial_function (option) wait_ready ::
  "(nat \<Rightarrow> error + bool) \<Rightarrow> string \<Rightarrow> nat \<Rightarrow> event list \<Rightarrow> unit io option" where
  "wait_ready ready idx n evs =
     (case ready n of
        Inl e \<Rightarrow> Some (evs @ [DescribeIndex idx], Inl e)
      | Inr r \<Rightarrow>
          if r then Some (evs @ [DescribeIndex idx], Inr ())
          else wait_ready ready idx (n + 1) (evs @ [DescribeIndex idx, Sleep 1]))"

definition io_bind_opt :: "'a io \<Rightarrow> ('a \<Rightarrow> 'b io option) \<Rightarrow> 'b io option" where
  "io_bind_opt m f =
     (case snd m of
        Inl e \<Rightarrow> Some (fst m, Inl e)
      | Inr x \<Rightarrow> (case f x of None \<Rightarrow> None | Some r \<Rightarrow> Some (fst m @ fst r, snd r)))"

definition opt_bind :: "'a io option \<Rightarrow> ('a \<Rightarrow> 'b io option) \<Rightarrow> 'b io option" where
  "opt_bind m f = (case m of None \<Rightarrow> None | Some r \<Rightarrow> io_bind_opt r f)"

text \<open>The index is used when it exists, and created and waited for otherwise.\<close>

definition ensure_index :: "ingest_config \<Rightarrow> ingest_world \<Rightarrow> string list \<Rightarrow> unit io option" where
  "ensure_index cfg w existing_indexes =
     (if INDEX_NAME cfg \<notin> set existing_indexes then
        io_bind_opt
          (io_bind (prints [''Creating index '' @ [CHR 0x27] @ INDEX_NAME cfg @ [CHR 0x27] @ ''...'']) (\<lambda>_.
           io_bind ([CreateIndex (INDEX_NAME cfg)], create_index w (INDEX_NAME cfg)) (\<lambda>_.
             prints [''Waiting for index to be ready...'']))) (\<lambda>_.
        opt_bind (wait_ready (describe_index_ready w (INDEX_NAME cfg)) (INDEX_NAME cfg) 0 []) (\<lambda>_.
          Some (prints [''Index ready!''])))
      else Some (prints [''Using existing index '' @ [CHR 0x27] @ INDEX_NAME cfg @ [CHR 0x27]]))"

text \<open>The rest of \<^verbatim>\<open>ingest_data\<close>: the Pinecone client, the index, the upload.\<close>

definition ingest_upload ::
  "ingest_config \<Rightarrow> ingest_world \<Rightarrow> string list \<times> doc list \<times> doc list \<Rightarrow> unit io option" where
  "ingest_upload cfg w loaded =
     (case loaded of (pdf_files, docs, chunks) \<Rightarrow>
        io_bind_opt ([ListIndexes], list_indexes w (PINECONE_API_KEY cfg)) (\<lambda>existing_indexes.
        opt_bind (ensure_index cfg w existing_indexes) (\<lambda>_.
          Some (io_bind (prints [''\<newline>Uploading vectors to Pinecone...'',
                                 ''This will upload '' @ str_nat (length chunks) @ '' vectors...'']) (\<lambda>_.
                io_bind ([FromDocuments (length chunks) (INDEX_NAME cfg)],
                         from_documents w chunks (INDEX_NAME cfg)) (\<lambda>_.
                  prints [''\<newline>'' @ replicate 60 CHR ''='',
                          ''Ingestion Complete!'',
                          replicate 60 CHR ''='',
                          ''  Documents: '' @ str_nat (length pdf_files),
                          ''  Pages: '' @ str_nat (length docs),
                          ''  Chunks: '' @ str_nat (length chunks),
                          ''  Index: '' @ INDEX_NAME cfg,
                          [],
                          ''You can now query these documents via the API.'']))))))"

text \<open>
  \<^verbatim>\<open>ingest_data\<close>: \<^const>\<open>None\<close> when the wait for the index never ends, otherwise the
  events of the run and how it ended.
\<close>

definition ingest_data :: "ingest_config \<Rightarrow> ingest_world \<Rightarrow> unit io option" where
  "ingest_data cfg w =
     io_bind_opt (ingest_front cfg w) (\<lambda>r.
       case r of None \<Rightarrow> Some (io_return ()) | Some loaded \<Rightarrow> ingest_upload cfg w loaded)"

section \<open>Reading a decimal numeral back, and example inputs\<close>

text \<open>\<^verbatim>\<open>int(s)\<close> on a string of decimal digits.\<close>

definition parse_nat :: "string \<Rightarrow> nat" where
  "parse_nat s = foldl (\<lambda>a c. 10 * a + (of_char c - 48)) 0 s"

text \<open>
  A passage with full metadata, and one of 201 characters with none; clients that
  answer, a vector index that raises, a language model that raises.
\<close>

definition example_doc :: doc where
  "example_doc =
     \<lparr> page_content = ''minimum yield strength 35,000 psi'',
       metadata = [''source'' \<mapsto> PStr ''ASTM_A106.pdf'', ''page'' \<mapsto> PInt 5] \<rparr>"

definition bare_doc :: doc where
  "bare_doc = \<lparr> page_content = replicate 201 CHR ''x'', metadata = Map.empty \<rparr>"

definition example_services :: "doc list \<Rightarrow> services" where
  "example_services docs =
     \<lparr> similarity_search = (\<lambda>q k. Inr docs),
       llm_invoke = (\<lambda>ms. Inr (AIMessage ''35,000 psi [1]'')) \<rparr>"

definition failing_search :: services where
  "failing_search =
     \<lparr> similarity_search = (\<lambda>q k. Inl (ServiceError ''index unreachable'')),
       llm_invoke = (\<lambda>ms. Inr (AIMessage ''35,000 psi [1]'')) \<rparr>"

definition failing_llm :: "doc list \<Rightarrow> services" where
  "failing_llm docs =
     \<lparr> similarity_search = (\<lambda>q k. Inr docs),
       llm_invoke = (\<lambda>ms. Inl (ServiceError ''quota exceeded'')) \<rparr>"

definition example_state :: agent_state where
  "example_state = \<lparr> messages = [HumanMessage ''A106?''], context_text = [], sources = [] \<rparr>"

text \<open>
  A tool backend over the example clients, and the arguments of two calls of the
  comparison tool: one material, two materials.
\<close>

definition example_backend :: backend where
  "example_backend =
     \<lparr> HAS_REAL_BACKEND = True,
       backend_services = example_services [example_doc],
       get_demo_response = (\<lambda>q. Inr \<lparr> res_response = ''demo'', res_sources = [] \<rparr>),
       vectorstore_list_documents = None \<rparr>"

definition one_material :: arguments where
  "one_material =
     \<lparr> arg_query = None, arg_material = None, arg_standard = None, arg_requirements = None,
       arg_materials = Some [''A106 Grade B''], arg_properties = None \<rparr>"

definition two_materials :: arguments where
  "two_materials =
     \<lparr> arg_query = None, arg_material = None, arg_standard = None, arg_requirements = None,
       arg_materials = Some [''A106 Grade B'', ''A53 Type E''], arg_properties = None \<rparr>"

text \<open>
  An environment with the language-model key only, constructors that succeed, and a
  data directory with one one-page PDF file.
\<close>

definition google_only :: environ where
  "google_only = [''GOOGLE_API_KEY'' \<mapsto> ''g-key'']"

definition google_only_config :: ingest_config where
  "google_only_config =
     \<lparr> GOOGLE_API_KEY = Some ''g-key'', PINECONE_API_KEY = None,
       INDEX_NAME = ''steel-index'', DATA_DIR = ''./data'' \<rparr>"

definition example_connect :: "environ \<Rightarrow> string \<Rightarrow> error + services" where
  "example_connect env idx = Inr (example_services [example_doc])"

definition example_world :: ingest_world where
  "example_world =
     \<lparr> path_exists = (\<lambda>p. True),
       glob_pdf = (\<lambda>p. [''data/ASTM_A106.pdf'']),
       path_name = (\<lambda>p. ''ASTM_A106.pdf''),
       loader_load = (\<lambda>p. Inr [\<lparr> page_content = ''minimum yield strength 35,000 psi'',
                                  metadata = [''source'' \<mapsto> PStr ''data/ASTM_A106.pdf'',
                                              ''page'' \<mapsto> PInt 4] \<rparr>]),
       now_isoformat = ''2024-01-01T00:00:00'',
       split_documents = (\<lambda>ds. Inr ds),
       list_indexes = (\<lambda>k. Inr []),
       create_index = (\<lambda>i. Inr ()),
       describe_index_ready = (\<lambda>i n. Inr True),
       from_documents = (\<lambda>cs i. Inr ()) \<rparr>"

text \<open>The page the example loader returns, and the same page after \<^verbatim>\<open>enrich_metadata\<close>.\<close>

definition example_page :: doc where
  "example_page =
     \<lparr> page_content = ''minimum yield strength 35,000 psi'',
       metadata = [''source'' \<mapsto> PStr ''data/ASTM_A106.pdf'', ''page'' \<mapsto> PInt 4] \<rparr>"

definition example_enriched :: doc where
  "example_enriched =
     \<lparr> page_content = ''minimum yield strength 35,000 psi'',
       metadata = [''source'' \<mapsto> PStr ''data/ASTM_A106.pdf'', ''page'' \<mapsto> PInt 4,
                   ''filename'' \<mapsto> PStr ''ASTM_A106.pdf'', ''source'' \<mapsto> PStr ''ASTM_A106.pdf'',
                   ''page'' \<mapsto> PInt 5, ''ingested_at'' \<mapsto> PStr ''2024-01-01T00:00:00''] \<rparr>"

section \<open>Sequencing, decimal numerals and the loop of the retrieval stage\<close>

lemma io_bind_pair_Inl [simp]: "io_bind (t, Inl e) f = (t, Inl e)"
  by (simp add: io_bind_def)

lemma io_bind_pair_Inr [simp]: "io_bind (t, Inr x) f = (t @ fst (f x), snd (f x))"
  by (simp add: io_bind_def)

lemma digit_char_value: "d < 10 \<Longrightarrow> of_char (digit_char d) - 48 = (d::nat)"
proof -
  assume "d < 10"
  then have "d \<in> {0, 1, 2, 3, 4, 5, 6, 7, 8, 9}"
    by auto
  then show ?thesis
    by (auto simp: digit_char_def)
qed

lemma parse_nat_str_nat: "parse_nat (str_nat n) = n"
proof (induction n rule: str_nat.induct)
  case (1 n)
  show ?case
  proof (cases "n < 10")
    case True
    then show ?thesis
      by (subst str_nat.simps) (simp add: parse_nat_def digit_char_value)
  next
    case False
    then have "parse_nat (str_nat (n div 10)) = n div 10"
      using "1" by simp
    then show ?thesis
      using False
      by (subst str_nat.simps) (simp add: parse_nat_def digit_char_value)
  qed
qed

lemma str_nat_inj: "str_nat a = str_nat b \<Longrightarrow> a = b"
  by (metis parse_nat_str_nat)

text \<open>
  The loop appends, for the passage at position \<open>k\<close> of \<^verbatim>\<open>enumerate(docs)\<close>, one
  context entry and one source dictionary, both with the marker of \<open>k + 1\<close>.
\<close>

lemma retrieve_loop_closed:
  "retrieve_loop i docs cws srcs =
     (cws @ map (\<lambda>(k, d). ''['' @ str_nat (k + 1) @ '']'' @ '' '' @ page_content d) (enumerate i docs),
      srcs @ map (\<lambda>(k, d).
               \<lparr> ref = ''['' @ str_nat (k + 1) @ '']'',
                 document = dict_get (metadata d) ''source'' (PStr ''Unknown Document''),
                 page = py_str (dict_get (metadata d) ''page'' (PStr ''N/A'')),
                 content_preview =
                   (if length (page_content d) > 200 then take 200 (page_content d) @ ''...''
                    else page_content d) \<rparr>) (enumerate i docs))"
  by (induction docs arbitrary: i cws srcs) (simp_all add: Let_def)

lemma retrieve_fail:
  assumes "messages st \<noteq> []" "similarity_search svc (content (last (messages st))) 10 = Inl e"
  shows "retrieve svc st =
     ([Print ''--- RETRIEVING ---'', SearchCall (content (last (messages st))) 10], Inl e)"
  using assms by (simp add: retrieve_def io_emit_def last_item_def call_search_def)

lemma retrieve_ok:
  assumes "messages st \<noteq> []" "similarity_search svc (content (last (messages st))) 10 = Inr docs"
  shows "retrieve svc st =
     ([Print ''--- RETRIEVING ---'', SearchCall (content (last (messages st))) 10],
      Inr \<lparr> upd_messages = None,
            upd_context = Some (str_join ''\<newline>\<newline>'' (fst (retrieve_loop 0 docs [] []))),
            upd_sources = Some (snd (retrieve_loop 0 docs [] [])) \<rparr>)"
  using assms
  by (simp add: retrieve_def io_emit_def last_item_def call_search_def io_return_def
      split: prod.splits)

lemma generate_eq:
  assumes "messages st \<noteq> []"
  shows "generate svc st =
     ([Print ''--- GENERATING ---'',
       LLMCall [HumanMessage (build_prompt (context_text st) (content (last (messages st))))]],
      case llm_invoke svc [HumanMessage (build_prompt (context_text st) (content (last (messages st))))] of
        Inl e \<Rightarrow> Inl e
      | Inr r \<Rightarrow> Inr \<lparr> upd_messages = Some [r], upd_context = None, upd_sources = None \<rparr>)"
  using assms
  by (simp add: generate_def io_emit_def last_item_def call_llm_def io_return_def split: sum.splits)

text \<open>The run of the graph is the retrieval node, then the generation node.\<close>

lemma app_invoke_unfold:
  "app_invoke svc st =
     io_bind (retrieve svc st) (\<lambda>u.
     io_bind (generate svc (apply_update st u)) (\<lambda>u'.
       io_return (apply_update (apply_update st u) u')))"
  by (simp add: app_invoke_def recursion_limit_def entry_point_def eval_nat_numeral)

lemma run_agent_search_fails:
  assumes "similarity_search svc q 10 = Inl e"
  shows "run_agent svc q = ([Print ''--- RETRIEVING ---'', SearchCall q 10], Inl e)"
  using assms
  by (simp add: run_agent_def app_invoke_unfold retrieve_fail)

lemma run_agent_search_ok:
  assumes "similarity_search svc q 10 = Inr docs"
  shows "run_agent svc q =
     ([Print ''--- RETRIEVING ---'', SearchCall q 10, Print ''--- GENERATING ---'',
       LLMCall [HumanMessage (build_prompt (str_join ''\<newline>\<newline>'' (fst (retrieve_loop 0 docs [] []))) q)]],
      case llm_invoke svc [HumanMessage (build_prompt (str_join ''\<newline>\<newline>'' (fst (retrieve_loop 0 docs [] []))) q)] of
        Inl e \<Rightarrow> Inl e
      | Inr a \<Rightarrow> Inr \<lparr> res_response = content a, res_sources = snd (retrieve_loop 0 docs [] []) \<rparr>)"
  using assms
  by (simp add: run_agent_def app_invoke_unfold retrieve_ok generate_eq apply_update_def
      io_return_def last_item_def split: sum.splits)

lemma loop_sources_length: "length (snd (retrieve_loop 0 docs [] [])) = length docs"
  by (simp add: retrieve_loop_closed)

lemma loop_sources_nth:
  assumes "k < length docs"
  shows "snd (retrieve_loop 0 docs [] []) ! k =
           \<lparr> ref = ''['' @ str_nat (k + 1) @ '']'',
             document = dict_get (metadata (docs ! k)) ''source'' (PStr ''Unknown Document''),
             page = py_str (dict_get (metadata (docs ! k)) ''page'' (PStr ''N/A'')),
             content_preview =
               (if length (page_content (docs ! k)) > 200 then take 200 (page_content (docs ! k)) @ ''...''
                else page_content (docs ! k)) \<rparr>"
  using assms by (simp add: retrieve_loop_closed nth_enumerate_eq)

lemma loop_markers:
  "map ref (snd (retrieve_loop 0 docs [] [])) =
     map (\<lambda>n. ''['' @ str_nat n @ '']'') [1..<Suc (length docs)]"
  by (rule nth_equalityI) (simp_all add: loop_sources_length loop_sources_nth del: upt_Suc)

lemma loop_markers_distinct: "distinct (map ref (snd (retrieve_loop 0 docs [] [])))"
  unfolding loop_markers
  by (simp add: distinct_map inj_on_def str_nat_inj del: upt_Suc)

section \<open>Citation markers\<close>

text \<open>
  Claim C1, as amended. When the similarity search returns the passages \<open>docs\<close>, the
  retrieval stage returns without error a citation list with exactly one citation per
  passage, and the reference markers of the citations are, in the order of the passages,
  the decimal numerals of 1 to N each enclosed in square brackets: \<^verbatim>\<open>[1]\<close>, \<^verbatim>\<open>[2]\<close>, ...,
  with no gap, no reordering and no marker used twice.
\<close>

theorem retrieve_markers_bracketed:
  assumes "messages st \<noteq> []"
    and "similarity_search svc (content (last (messages st))) 10 = Inr docs"
  shows "\<exists>u srcs. snd (retrieve svc st) = Inr u \<and> upd_sources u = Some srcs \<and>
           length srcs = length docs \<and>
           map ref srcs = map (\<lambda>n. ''['' @ str_nat n @ '']'') [1..<Suc (length docs)] \<and>
           distinct (map ref srcs)"
proof -
  let ?u = "\<lparr> upd_messages = None,
               upd_context = Some (str_join ''\<newline>\<newline>'' (fst (retrieve_loop 0 docs [] []))),
               upd_sources = Some (snd (retrieve_loop 0 docs [] [])) \<rparr>"
  have "snd (retrieve svc st) = Inr ?u"
    by (simp add: retrieve_ok [OF assms])
  moreover have "upd_sources ?u = Some (snd (retrieve_loop 0 docs [] []))"
    by simp
  ultimately show ?thesis
    using loop_sources_length loop_markers loop_markers_distinct by blast
qed

text \<open>Two passages get the markers \<^verbatim>\<open>[1]\<close> and \<^verbatim>\<open>[2]\<close>.\<close>

theorem retrieve_markers_bracketed_witness:
  "messages example_state \<noteq> [] \<and>
   similarity_search (example_services [example_doc, bare_doc]) (content (last (messages example_state))) 10
     = Inr [example_doc, bare_doc] \<and>
   (\<exists>u srcs. snd (retrieve (example_services [example_doc, bare_doc]) example_state) = Inr u \<and>
      upd_sources u = Some srcs \<and> length srcs = 2 \<and> map ref srcs = [''[1]'', ''[2]''])"
proof -
  have m: "messages example_state \<noteq> []"
    by (simp add: example_state_def)
  have s: "similarity_search (example_services [example_doc, bare_doc]) (content (last (messages example_state))) 10
     = Inr [example_doc, bare_doc]"
    by (simp add: example_services_def)
  have n: "map (\<lambda>n. ''['' @ str_nat n @ '']'') [1..<Suc (length [example_doc, bare_doc])] = [''[1]'', ''[2]'']"
    by (simp add: upt_rec str_nat.simps digit_char_def)
  show ?thesis
    using retrieve_markers_bracketed [OF m s] m s n by auto
qed

text \<open>
  The claim as first stated has the markers be the strings \<^verbatim>\<open>1\<close> to \<^verbatim>\<open>N\<close>. For one
  returned passage the only marker is \<^verbatim>\<open>[1]\<close>, brackets included.
\<close>

theorem markers_are_not_bare_numerals:
  "snd (retrieve (example_services [example_doc]) example_state) =
     Inr \<lparr> upd_messages = None,
           upd_context = Some ''[1] minimum yield strength 35,000 psi'',
           upd_sources = Some [\<lparr> ref = ''[1]'', document = PStr ''ASTM_A106.pdf'', page = ''5'',
                                 content_preview = ''minimum yield strength 35,000 psi'' \<rparr>] \<rparr>
   \<and> ''[1]'' \<noteq> ''1''"
  by (simp add: retrieve_def io_emit_def last_item_def call_search_def io_return_def
      example_services_def example_state_def example_doc_def str_nat.simps digit_char_def
      dict_get_def str_int_def)

text \<open>
  A run on two passages, the second without metadata and one character over the preview
  budget.
\<close>

lemma example_run:
  "run_agent (example_services [example_doc, bare_doc]) ''A106?'' =
     ([Print ''--- RETRIEVING ---'', SearchCall ''A106?'' 10, Print ''--- GENERATING ---'',
       LLMCall [HumanMessage (build_prompt
         (''[1] minimum yield strength 35,000 psi\<newline>\<newline>[2] '' @ replicate 201 CHR ''x'') ''A106?'')]],
      Inr \<lparr> res_response = ''35,000 psi [1]'',
            res_sources =
              [\<lparr> ref = ''[1]'', document = PStr ''ASTM_A106.pdf'', page = ''5'',
                  content_preview = ''minimum yield strength 35,000 psi'' \<rparr>,
               \<lparr> ref = ''[2]'', document = PStr ''Unknown Document'', page = ''N/A'',
                  content_preview = replicate 200 CHR ''x'' @ ''...'' \<rparr>] \<rparr>)"
proof -
  have s: "similarity_search (example_services [example_doc, bare_doc]) ''A106?'' 10 = Inr [example_doc, bare_doc]"
    by (simp add: example_services_def)
  show ?thesis
    by (simp add: run_agent_search_ok [OF s] retrieve_loop_closed enumerate_eq_zip upt_rec)
       (simp add: example_services_def example_doc_def bare_doc_def str_nat.simps digit_char_def
         dict_get_def str_int_def)
qed

lemma example_retrieve:
  "snd (retrieve (example_services [example_doc, bare_doc]) example_state) =
     Inr \<lparr> upd_messages = None,
           upd_context = Some (''[1] minimum yield strength 35,000 psi\<newline>\<newline>[2] '' @ replicate 201 CHR ''x''),
           upd_sources = Some
              [\<lparr> ref = ''[1]'', document = PStr ''ASTM_A106.pdf'', page = ''5'',
                  content_preview = ''minimum yield strength 35,000 psi'' \<rparr>,
               \<lparr> ref = ''[2]'', document = PStr ''Unknown Document'', page = ''N/A'',
                  content_preview = replicate 200 CHR ''x'' @ ''...'' \<rparr>] \<rparr>"
  by (simp add: retrieve_def io_emit_def last_item_def call_search_def io_return_def
      example_services_def example_state_def example_doc_def bare_doc_def str_nat.simps
      digit_char_def dict_get_def str_int_def)

section \<open>Citations and passages\<close>

text \<open>
  Claim C2. When the similarity search returns the passages \<open>docs\<close> and the query has
  a result, the citation list of the result has the length of \<open>docs\<close>, and its
  citation at each position is the one built from the passage at that position: its
  marker, its document name, its page label and its preview. No passage is dropped,
  merged with an equal one or moved, and no other citation is added.
\<close>

theorem citations_match_passages:
  assumes "similarity_search svc q 10 = Inr docs"
    and "snd (run_agent svc q) = Inr result"
  shows "length (res_sources result) = length docs \<and>
         (\<forall>k < length docs.
            ref (res_sources result ! k) = ''['' @ str_nat (k + 1) @ '']'' \<and>
            document (res_sources result ! k) =
              dict_get (metadata (docs ! k)) ''source'' (PStr ''Unknown Document'') \<and>
            page (res_sources result ! k) =
              py_str (dict_get (metadata (docs ! k)) ''page'' (PStr ''N/A'')) \<and>
            content_preview (res_sources result ! k) =
              (if length (page_content (docs ! k)) > 200 then take 200 (page_content (docs ! k)) @ ''...''
               else page_content (docs ! k)))"
proof -
  from assms have "res_sources result = snd (retrieve_loop 0 docs [] [])"
    by (auto simp: run_agent_search_ok split: sum.splits)
  then show ?thesis
    by (simp add: loop_sources_length loop_sources_nth)
qed

text \<open>The same passage returned twice is cited twice.\<close>

theorem citations_match_passages_witness:
  "similarity_search (example_services [example_doc, example_doc]) ''A106?'' 10 = Inr [example_doc, example_doc] \<and>
   snd (run_agent (example_services [example_doc, example_doc]) ''A106?'') =
     Inr \<lparr> res_response = ''35,000 psi [1]'',
           res_sources = [\<lparr> ref = ''[1]'', document = PStr ''ASTM_A106.pdf'', page = ''5'',
                             content_preview = ''minimum yield strength 35,000 psi'' \<rparr>,
                          \<lparr> ref = ''[2]'', document = PStr ''ASTM_A106.pdf'', page = ''5'',
                             content_preview = ''minimum yield strength 35,000 psi'' \<rparr>] \<rparr> \<and>
   length [\<lparr> ref = ''[1]'', document = PStr ''ASTM_A106.pdf'', page = ''5'',
             content_preview = ''minimum yield strength 35,000 psi'' \<rparr>,
           \<lparr> ref = ''[2]'', document = PStr ''ASTM_A106.pdf'', page = ''5'',
             content_preview = ''minimum yield strength 35,000 psi'' \<rparr>] = length [example_doc, example_doc]"
proof -
  have s: "similarity_search (example_services [example_doc, example_doc]) ''A106?'' 10 = Inr [example_doc, example_doc]"
    by (simp add: example_services_def)
  have r: "snd (run_agent (example_services [example_doc, example_doc]) ''A106?'') =
     Inr \<lparr> res_response = ''35,000 psi [1]'',
           res_sources = [\<lparr> ref = ''[1]'', document = PStr ''ASTM_A106.pdf'', page = ''5'',
                             content_preview = ''minimum yield strength 35,000 psi'' \<rparr>,
                          \<lparr> ref = ''[2]'', document = PStr ''ASTM_A106.pdf'', page = ''5'',
                             content_preview = ''minimum yield strength 35,000 psi'' \<rparr>] \<rparr>"
    by (simp add: run_agent_search_ok [OF s] retrieve_loop_closed enumerate_eq_zip upt_rec)
       (simp add: example_services_def example_doc_def str_nat.simps digit_char_def dict_get_def str_int_def)
  show ?thesis
    using citations_match_passages [OF s r] s r by simp
qed

text \<open>Each context entry is the marker of its citation, a space and the passage text.\<close>

lemma loop_entries_zip:
  "fst (retrieve_loop 0 docs [] []) =
     map (\<lambda>(s, d). ref s @ '' '' @ page_content d) (zip (snd (retrieve_loop 0 docs [] [])) docs)"
  by (rule nth_equalityI)
     (simp_all add: loop_sources_length loop_sources_nth retrieve_loop_closed nth_enumerate_eq)

text \<open>
  Claim C5. When the similarity search returns the passages \<open>docs\<close>, the context
  string in the prompt sent to the language model is the blank-line join of one entry per
  passage, and the entry at each position starts with the reference marker of the citation
  at that position of the citation list (the list the result carries), followed by a space
  and the passage text: the markers embedded in the context are those of the citation
  list, in the same order.
\<close>

theorem context_markers_are_citation_markers:
  assumes "similarity_search svc q 10 = Inr docs"
  shows "\<exists>srcs. length srcs = length docs \<and>
           fst (run_agent svc q) =
             [Print ''--- RETRIEVING ---'', SearchCall q 10, Print ''--- GENERATING ---'',
              LLMCall [HumanMessage
                (build_prompt
                   (str_join ''\<newline>\<newline>'' (map (\<lambda>(s, d). ref s @ '' '' @ page_content d) (zip srcs docs)))
                   q)]] \<and>
           (\<forall>result. snd (run_agent svc q) = Inr result \<longrightarrow> res_sources result = srcs)"
proof -
  let ?srcs = "snd (retrieve_loop 0 docs [] [])"
  have "length ?srcs = length docs"
    by (rule loop_sources_length)
  moreover have "fst (run_agent svc q) =
             [Print ''--- RETRIEVING ---'', SearchCall q 10, Print ''--- GENERATING ---'',
              LLMCall [HumanMessage
                (build_prompt
                   (str_join ''\<newline>\<newline>'' (map (\<lambda>(s, d). ref s @ '' '' @ page_content d) (zip ?srcs docs)))
                   q)]]"
    by (simp add: run_agent_search_ok [OF assms] loop_entries_zip)
  moreover have "\<forall>result. snd (run_agent svc q) = Inr result \<longrightarrow> res_sources result = ?srcs"
    by (auto simp: run_agent_search_ok [OF assms] split: sum.splits)
  ultimately show ?thesis
    by blast
qed

text \<open>For two passages the context holds \<^verbatim>\<open>[1]\<close> then \<^verbatim>\<open>[2]\<close>, as the citation list does.\<close>

theorem context_markers_are_citation_markers_witness:
  "similarity_search (example_services [example_doc, bare_doc]) ''A106?'' 10 = Inr [example_doc, bare_doc] \<and>
   fst (run_agent (example_services [example_doc, bare_doc]) ''A106?'') =
     [Print ''--- RETRIEVING ---'', SearchCall ''A106?'' 10, Print ''--- GENERATING ---'',
      LLMCall [HumanMessage (build_prompt
        (''[1] minimum yield strength 35,000 psi\<newline>\<newline>[2] '' @ replicate 201 CHR ''x'') ''A106?'')]] \<and>
   map ref (res_sources (projr (snd (run_agent (example_services [example_doc, bare_doc]) ''A106?'')))) =
     [''[1]'', ''[2]'']"
proof -
  have s: "similarity_search (example_services [example_doc, bare_doc]) ''A106?'' 10 = Inr [example_doc, bare_doc]"
    by (simp add: example_services_def)
  show ?thesis
    using context_markers_are_citation_markers [OF s] s
    by (simp add: example_run)
qed

section \<open>Previews and missing metadata\<close>

text \<open>
  Claim C6. For every passage the similarity search returns, the citation at its
  position has as \<^verbatim>\<open>content_preview\<close> the first 200 characters of the passage text
  followed by the truncation marker \<^verbatim>\<open>...\<close> when the text is longer than 200 characters,
  and the whole text unchanged when its length is at most 200.
\<close>

theorem content_preview_truncation:
  assumes "messages st \<noteq> []"
    and "similarity_search svc (content (last (messages st))) 10 = Inr docs"
    and "k < length docs"
  shows "\<exists>u srcs. snd (retrieve svc st) = Inr u \<and> upd_sources u = Some srcs \<and>
           (200 < length (page_content (docs ! k)) \<longrightarrow>
              content_preview (srcs ! k) = take 200 (page_content (docs ! k)) @ ''...'') \<and>
           (length (page_content (docs ! k)) \<le> 200 \<longrightarrow>
              content_preview (srcs ! k) = page_content (docs ! k))"
  using assms by (simp add: retrieve_ok loop_sources_nth)

text \<open>A passage of 201 characters is cut to 200 and marked; one of 33 is kept whole.\<close>

theorem content_preview_truncation_witness:
  "messages example_state \<noteq> [] \<and>
   similarity_search (example_services [example_doc, bare_doc]) (content (last (messages example_state))) 10
     = Inr [example_doc, bare_doc] \<and>
   (1::nat) < length [example_doc, bare_doc] \<and>
   200 < length (page_content ([example_doc, bare_doc] ! 1)) \<and>
   length (page_content ([example_doc, bare_doc] ! 0)) \<le> 200 \<and>
   (\<exists>u srcs. snd (retrieve (example_services [example_doc, bare_doc]) example_state) = Inr u \<and>
      upd_sources u = Some srcs \<and>
      content_preview (srcs ! 1) = replicate 200 CHR ''x'' @ ''...'' \<and>
      content_preview (srcs ! 0) = ''minimum yield strength 35,000 psi'')"
proof -
  have m: "messages example_state \<noteq> []"
    by (simp add: example_state_def)
  have s: "similarity_search (example_services [example_doc, bare_doc]) (content (last (messages example_state))) 10
     = Inr [example_doc, bare_doc]"
    by (simp add: example_services_def)
  have k1: "(1::nat) < length [example_doc, bare_doc]" and k0: "(0::nat) < length [example_doc, bare_doc]"
    by simp_all
  have long: "200 < length (page_content ([example_doc, bare_doc] ! 1))"
    by (simp add: bare_doc_def)
  have short: "length (page_content ([example_doc, bare_doc] ! 0)) \<le> 200"
    by (simp add: example_doc_def)
  show ?thesis
    using content_preview_truncation [OF m s k1] content_preview_truncation [OF m s k0]
      m s long short
    by (simp add: example_retrieve)
qed

text \<open>
  Claim C7. For every passage the similarity search returns, the retrieval stage returns
  its citation without error; when the passage's metadata has no \<^verbatim>\<open>source\<close> entry the
  citation's document name is \<^verbatim>\<open>Unknown Document\<close> (which the response model of the HTTP
  endpoint accepts), and when it has no \<^verbatim>\<open>page\<close> entry the page label is \<^verbatim>\<open>N/A\<close>.
\<close>

theorem missing_metadata_sentinels:
  assumes "messages st \<noteq> []"
    and "similarity_search svc (content (last (messages st))) 10 = Inr docs"
    and "k < length docs"
  shows "\<exists>u srcs. snd (retrieve svc st) = Inr u \<and> upd_sources u = Some srcs \<and>
           (metadata (docs ! k) ''source'' = None \<longrightarrow>
              document (srcs ! k) = PStr ''Unknown Document'' \<and>
              (\<exists>a. Source_model (srcs ! k) = Inr a \<and> api_document a = ''Unknown Document'')) \<and>
           (metadata (docs ! k) ''page'' = None \<longrightarrow> page (srcs ! k) = ''N/A'')"
  using assms by (simp add: retrieve_ok loop_sources_nth dict_get_def Source_model_def)

text \<open>A passage with empty metadata gets both sentinels.\<close>

theorem missing_metadata_sentinels_witness:
  "messages example_state \<noteq> [] \<and>
   similarity_search (example_services [example_doc, bare_doc]) (content (last (messages example_state))) 10
     = Inr [example_doc, bare_doc] \<and>
   (1::nat) < length [example_doc, bare_doc] \<and>
   metadata ([example_doc, bare_doc] ! 1) ''source'' = None \<and>
   metadata ([example_doc, bare_doc] ! 1) ''page'' = None \<and>
   (\<exists>u srcs. snd (retrieve (example_services [example_doc, bare_doc]) example_state) = Inr u \<and>
      upd_sources u = Some srcs \<and>
      document (srcs ! 1) = PStr ''Unknown Document'' \<and> page (srcs ! 1) = ''N/A'')"
proof -
  have m: "messages example_state \<noteq> []"
    by (simp add: example_state_def)
  have s: "similarity_search (example_services [example_doc, bare_doc]) (content (last (messages example_state))) 10
     = Inr [example_doc, bare_doc]"
    by (simp add: example_services_def)
  have k1: "(1::nat) < length [example_doc, bare_doc]"
    by simp
  have none: "metadata ([example_doc, bare_doc] ! 1) ''source'' = None"
    "metadata ([example_doc, bare_doc] ! 1) ''page'' = None"
    by (simp_all add: bare_doc_def)
  show ?thesis
    using missing_metadata_sentinels [OF m s k1] m s none
    by (simp add: example_retrieve)
qed

section \<open>The order of the two stages\<close>

text \<open>
  Claim C8. When the similarity search returns no passage, the retrieval stage returns
  without error the empty citation list and the empty context string, and the generation
  stage is run with the prompt built on that empty context. The run ends as the call to
  the language model ends: no step of the pipeline raises, and the result is the answer
  of the language model with the empty citation list.
\<close>

theorem empty_index_still_generates:
  assumes "similarity_search svc q 10 = Inr []"
  shows "snd (retrieve svc \<lparr> messages = [HumanMessage q], context_text = [], sources = [] \<rparr>) =
           Inr \<lparr> upd_messages = None, upd_context = Some [], upd_sources = Some [] \<rparr> \<and>
         fst (run_agent svc q) =
           [Print ''--- RETRIEVING ---'', SearchCall q 10, Print ''--- GENERATING ---'',
            LLMCall [HumanMessage (build_prompt [] q)]] \<and>
         snd (run_agent svc q) =
           (case llm_invoke svc [HumanMessage (build_prompt [] q)] of
              Inl e \<Rightarrow> Inl e
            | Inr a \<Rightarrow> Inr \<lparr> res_response = content a, res_sources = [] \<rparr>)"
proof -
  have stage: "snd (retrieve svc \<lparr> messages = [HumanMessage q], context_text = [], sources = [] \<rparr>) =
           Inr \<lparr> upd_messages = None, upd_context = Some [], upd_sources = Some [] \<rparr>"
    using assms by (simp add: retrieve_ok)
  have run: "run_agent svc q =
     ([Print ''--- RETRIEVING ---'', SearchCall q 10, Print ''--- GENERATING ---'',
       LLMCall [HumanMessage (build_prompt [] q)]],
      case llm_invoke svc [HumanMessage (build_prompt [] q)] of
        Inl e \<Rightarrow> Inl e
      | Inr a \<Rightarrow> Inr \<lparr> res_response = content a, res_sources = [] \<rparr>)"
    using run_agent_search_ok [OF assms] by (simp split: sum.splits)
  show ?thesis
    using stage by (simp add: run)
qed

text \<open>An empty index and a language model that answers.\<close>

theorem empty_index_still_generates_witness:
  "similarity_search (example_services []) ''A106?'' 10 = Inr [] \<and>
   llm_invoke (example_services []) [HumanMessage (build_prompt [] ''A106?'')] = Inr (AIMessage ''35,000 psi [1]'') \<and>
   run_agent (example_services []) ''A106?'' =
     ([Print ''--- RETRIEVING ---'', SearchCall ''A106?'' 10, Print ''--- GENERATING ---'',
       LLMCall [HumanMessage (build_prompt [] ''A106?'')]],
      Inr \<lparr> res_response = ''35,000 psi [1]'', res_sources = [] \<rparr>)"
proof -
  have s: "similarity_search (example_services []) ''A106?'' 10 = Inr []"
    by (simp add: example_services_def)
  have a: "llm_invoke (example_services []) [HumanMessage (build_prompt [] ''A106?'')] = Inr (AIMessage ''35,000 psi [1]'')"
    by (simp add: example_services_def)
  show ?thesis
    using empty_index_still_generates [OF s] s a
    by (cases "run_agent (example_services []) ''A106?''") simp
qed

text \<open>
  Claim C4. When the similarity search raises, the run of the query ends with that
  exception after the retrieval stage: it has printed the retrieval banner and called the
  search, and nothing else; the generation stage has not started and the language model
  has not been called. When the search returns, the run goes on with the generation
  stage, once.
\<close>

theorem retrieval_failure_skips_generation:
  "(similarity_search svc q 10 = Inl e \<longrightarrow>
      run_agent svc q = ([Print ''--- RETRIEVING ---'', SearchCall q 10], Inl e) \<and>
      Print ''--- GENERATING ---'' \<notin> set (fst (run_agent svc q)) \<and>
      (\<forall>ms. LLMCall ms \<notin> set (fst (run_agent svc q)))) \<and>
   (similarity_search svc q 10 = Inr docs \<longrightarrow>
      (\<exists>prompt. fst (run_agent svc q) =
         [Print ''--- RETRIEVING ---'', SearchCall q 10, Print ''--- GENERATING ---'',
          LLMCall [HumanMessage prompt]]))"
  by (simp add: run_agent_search_fails run_agent_search_ok)

text \<open>A vector index that raises, and one that returns a passage.\<close>

theorem retrieval_failure_skips_generation_witness:
  "similarity_search failing_search ''A106?'' 10 = Inl (ServiceError ''index unreachable'') \<and>
   run_agent failing_search ''A106?'' =
     ([Print ''--- RETRIEVING ---'', SearchCall ''A106?'' 10], Inl (ServiceError ''index unreachable'')) \<and>
   similarity_search (example_services [example_doc]) ''A106?'' 10 = Inr [example_doc] \<and>
   length (fst (run_agent (example_services [example_doc]) ''A106?'')) = 4"
proof -
  have f: "similarity_search failing_search ''A106?'' 10 = Inl (ServiceError ''index unreachable'')"
    by (simp add: failing_search_def)
  have s: "similarity_search (example_services [example_doc]) ''A106?'' 10 = Inr [example_doc]"
    by (simp add: example_services_def)
  show ?thesis
    using retrieval_failure_skips_generation [of failing_search "''A106?''" "ServiceError ''index unreachable''" "[]"]
      retrieval_failure_skips_generation [of "example_services [example_doc]" "''A106?''" "ServiceError []" "[example_doc]"]
      f s
    by auto
qed

section \<open>Failures at the HTTP endpoint\<close>

lemma Source_models_length: "Source_models srcs = Inr as \<Longrightarrow> length as = length srcs"
  by (induction srcs arbitrary: as) (auto split: sum.splits)

lemma chat_eq:
  "chat svc q =
     (fst (run_agent svc q),
      case snd (run_agent svc q) of
        Inl e \<Rightarrow> Inl (HTTPException 500 (exc_str e))
      | Inr result \<Rightarrow>
          (case Source_models (res_sources result) of
             Inl e \<Rightarrow> Inl (HTTPException 500 (exc_str e))
           | Inr ss \<Rightarrow> Inr \<lparr> chat_text = res_response result, chat_sources = ss \<rparr>))"
  by (cases "run_agent svc q") (auto simp: chat_def Let_def io_return_def split: sum.splits)

text \<open>
  Claim C3. When the similarity search raises \<open>e\<close>, and when the call the run makes to
  the language model raises \<open>e\<close>, the \<^verbatim>\<open>/api/chat\<close> handler raises the HTTP error 500
  whose detail is the message of \<open>e\<close>. Whatever happens, the handler either raises
  an HTTP error 500 with a message, or returns a response with the answer of the language
  model and one citation per returned passage; a raised error carries no part of a result.
\<close>

theorem chat_all_or_nothing:
  "(similarity_search svc q 10 = Inl e \<longrightarrow>
      snd (chat svc q) = Inl (HTTPException 500 (exc_str e))) \<and>
   (\<forall>ms. LLMCall ms \<in> set (fst (chat svc q)) \<and> llm_invoke svc ms = Inl e \<longrightarrow>
      snd (chat svc q) = Inl (HTTPException 500 (exc_str e))) \<and>
   (\<forall>err. snd (chat svc q) = Inl err \<longrightarrow> (\<exists>m. err = HTTPException 500 m)) \<and>
   (\<forall>r. snd (chat svc q) = Inr r \<longrightarrow>
      (\<exists>docs ms a. similarity_search svc q 10 = Inr docs \<and>
         LLMCall ms \<in> set (fst (chat svc q)) \<and> llm_invoke svc ms = Inr a \<and>
         chat_text r = content a \<and> length (chat_sources r) = length docs))"
proof (cases "similarity_search svc q 10")
  case (Inl e')
  then show ?thesis
    by (simp add: chat_eq run_agent_search_fails)
next
  case (Inr docs)
  then show ?thesis
    by (auto simp: chat_eq run_agent_search_ok loop_sources_length
        dest: Source_models_length split: sum.splits)
qed

text \<open>
  A vector index that raises, a language model that raises, and a run where both answer.
\<close>

theorem chat_all_or_nothing_witness:
  "similarity_search failing_search ''A106?'' 10 = Inl (ServiceError ''index unreachable'') \<and>
   snd (chat failing_search ''A106?'') = Inl (HTTPException 500 ''index unreachable'') \<and>
   LLMCall [HumanMessage (build_prompt ''[1] minimum yield strength 35,000 psi'' ''A106?'')]
     \<in> set (fst (chat (failing_llm [example_doc]) ''A106?'')) \<and>
   llm_invoke (failing_llm [example_doc])
     [HumanMessage (build_prompt ''[1] minimum yield strength 35,000 psi'' ''A106?'')]
     = Inl (ServiceError ''quota exceeded'') \<and>
   snd (chat (failing_llm [example_doc]) ''A106?'') = Inl (HTTPException 500 ''quota exceeded'') \<and>
   snd (chat (example_services [example_doc]) ''A106?'') =
     Inr \<lparr> chat_text = ''35,000 psi [1]'',
           chat_sources = [\<lparr> api_ref = ''[1]'', api_document = ''ASTM_A106.pdf'', api_page = ''5'',
                              api_content_preview = ''minimum yield strength 35,000 psi'' \<rparr>] \<rparr>"
proof -
  have f: "similarity_search failing_search ''A106?'' 10 = Inl (ServiceError ''index unreachable'')"
    by (simp add: failing_search_def)
  have s: "similarity_search (failing_llm [example_doc]) ''A106?'' 10 = Inr [example_doc]"
    by (simp add: failing_llm_def)
  have s': "similarity_search (example_services [example_doc]) ''A106?'' 10 = Inr [example_doc]"
    by (simp add: example_services_def)
  have loop: "retrieve_loop 0 [example_doc] [] [] =
      ([''[1] minimum yield strength 35,000 psi''],
       [\<lparr> ref = ''[1]'', document = PStr ''ASTM_A106.pdf'', page = ''5'',
           content_preview = ''minimum yield strength 35,000 psi'' \<rparr>])"
    by (simp add: example_doc_def str_nat.simps digit_char_def dict_get_def str_int_def)
  have l: "llm_invoke (failing_llm [example_doc])
     [HumanMessage (build_prompt ''[1] minimum yield strength 35,000 psi'' ''A106?'')]
     = Inl (ServiceError ''quota exceeded'')"
    by (simp add: failing_llm_def)
  have c: "LLMCall [HumanMessage (build_prompt ''[1] minimum yield strength 35,000 psi'' ''A106?'')]
     \<in> set (fst (chat (failing_llm [example_doc]) ''A106?''))"
    by (simp add: chat_eq run_agent_search_ok [OF s] loop del: retrieve_loop.simps)
  have a: "llm_invoke (example_services [example_doc]) ms = Inr (AIMessage ''35,000 psi [1]'')" for ms
    by (simp add: example_services_def)
  have ok: "snd (chat (example_services [example_doc]) ''A106?'') =
     Inr \<lparr> chat_text = ''35,000 psi [1]'',
           chat_sources = [\<lparr> api_ref = ''[1]'', api_document = ''ASTM_A106.pdf'', api_page = ''5'',
                              api_content_preview = ''minimum yield strength 35,000 psi'' \<rparr>] \<rparr>"
    by (simp add: chat_eq run_agent_search_ok [OF s'] loop a Source_model_def
        del: retrieve_loop.simps)
  show ?thesis
    using chat_all_or_nothing [of failing_search "''A106?''" "ServiceError ''index unreachable''"]
      chat_all_or_nothing [of "failing_llm [example_doc]" "''A106?''" "ServiceError ''quota exceeded''"]
      chat_all_or_nothing [of "example_services [example_doc]" "''A106?''" "ServiceError []"]
      f l c ok
    by auto
qed

section \<open>The comparison tool\<close>

text \<open>
  Claim C10. A call of the \<^verbatim>\<open>compare_materials\<close> tool with fewer than two materials (or
  without the \<^verbatim>\<open>materials\<close> argument) returns the one text
  \<^verbatim>\<open>Error: Please provide at least 2 materials to compare.\<close> and performs no effect at
  all: no stage of the pipeline runs, no client is called, nor is the demo responder. A
  call that performs any effect was given at least two materials; with at least two and a
  real backend the call runs the pipeline on the comparison query.
\<close>

theorem compare_materials_needs_two:
  "(length (case arg_materials args of None \<Rightarrow> [] | Some ms \<Rightarrow> ms) < 2 \<longrightarrow>
      call_tool be ''compare_materials'' args =
        ([], Inr [TextContent ''Error: Please provide at least 2 materials to compare.''])) \<and>
   (fst (call_tool be ''compare_materials'' args) \<noteq> [] \<longrightarrow>
      2 \<le> length (case arg_materials args of None \<Rightarrow> [] | Some ms \<Rightarrow> ms)) \<and>
   (2 \<le> length (case arg_materials args of None \<Rightarrow> [] | Some ms \<Rightarrow> ms) \<and> HAS_REAL_BACKEND be \<longrightarrow>
      fst (call_tool be ''compare_materials'' args) =
        fst (run_agent (backend_services be)
               (''Compare '' @ str_join '' and '' (case arg_materials args of None \<Rightarrow> [] | Some ms \<Rightarrow> ms) @
                '' for '' @
                (case arg_properties args of
                   None \<Rightarrow> ''yield strength, tensile strength''
                 | Some ps \<Rightarrow> if ps \<noteq> [] then str_join '', '' ps else ''properties''))) \<and>
      Print ''--- RETRIEVING ---'' \<in> set (fst (call_tool be ''compare_materials'' args)))"
proof -
  have reached: "Print ''--- RETRIEVING ---'' \<in> set (fst (run_agent svc query))" for svc query
    by (cases "similarity_search svc query 10")
       (simp_all add: run_agent_search_fails run_agent_search_ok)
  show ?thesis
    using reached
    by (auto simp: call_tool_def Let_def io_return_def backend_query_def io_bind_def
        split: sum.splits option.splits)
qed

text \<open>One material is refused without any effect; two materials start the pipeline.\<close>

theorem compare_materials_needs_two_witness:
  "length (case arg_materials one_material of None \<Rightarrow> [] | Some ms \<Rightarrow> ms) < 2 \<and>
   call_tool example_backend ''compare_materials'' one_material =
     ([], Inr [TextContent ''Error: Please provide at least 2 materials to compare.'']) \<and>
   2 \<le> length (case arg_materials two_materials of None \<Rightarrow> [] | Some ms \<Rightarrow> ms) \<and>
   HAS_REAL_BACKEND example_backend \<and>
   fst (call_tool example_backend ''compare_materials'' two_materials) \<noteq> [] \<and>
   fst (call_tool example_backend ''compare_materials'' two_materials) =
     fst (run_agent (example_services [example_doc])
            ''Compare A106 Grade B and A53 Type E for yield strength, tensile strength'')"
proof -
  have one: "length (case arg_materials one_material of None \<Rightarrow> [] | Some ms \<Rightarrow> ms) < 2"
    by (simp add: one_material_def)
  have two: "2 \<le> length (case arg_materials two_materials of None \<Rightarrow> [] | Some ms \<Rightarrow> ms)"
    by (simp add: two_materials_def)
  have real: "HAS_REAL_BACKEND example_backend"
    and svc: "backend_services example_backend = example_services [example_doc]"
    by (simp_all add: example_backend_def)
  have nonempty: "fst (call_tool example_backend ''compare_materials'' two_materials) \<noteq> []"
    using compare_materials_needs_two [of two_materials example_backend] two real
    by auto
  show ?thesis
    using compare_materials_needs_two [of one_material example_backend]
      compare_materials_needs_two [of two_materials example_backend]
      one two real nonempty
    by (simp add: svc one_material_def two_materials_def)
qed

section \<open>Credentials at start-up\<close>

lemma io_bind_events:
  "set (fst m) \<subseteq> S \<Longrightarrow> (\<And>x. set (fst (f x)) \<subseteq> S) \<Longrightarrow> set (fst (io_bind m f)) \<subseteq> S"
  by (cases "snd m") (auto simp: io_bind_def)

lemma prints_events: "set (fst (prints ls)) \<subseteq> range Print \<union> S"
  by (auto simp: prints_def)

text \<open>
  Up to the check of the Pinecone key the ingestion job prints, creates the data
  directory, loads and splits; it does not call the Pinecone client.
\<close>

lemma ingest_front_events:
  "set (fst (ingest_front cfg w)) \<subseteq>
     range Print \<union> (range MakeDirs \<union> range LoaderLoad \<union> range SplitDocuments)"
  unfolding ingest_front_def Let_def
  by (intro io_bind_events prints_events
        if_split [where P = "\<lambda>r. set (fst r) \<subseteq> _", THEN iffD2] conjI impI)
     (simp_all add: io_return_def io_emit_def)

lemma ingest_data_no_key:
  assumes "\<not> truthy (PINECONE_API_KEY cfg)"
  shows "ingest_data cfg w =
           Some (fst (ingest_front cfg w),
                 case snd (ingest_front cfg w) of Inl e \<Rightarrow> Inl e | Inr r \<Rightarrow> Inr ())"
proof -
  have "snd (ingest_front cfg w) \<noteq> Inr (Some loaded)" for loaded
    using assms
    by (auto simp: ingest_front_def io_bind_def io_return_def io_emit_def prints_def Let_def
        split: sum.splits if_splits)
  then show ?thesis
    by (cases "ingest_front cfg w")
       (auto simp: ingest_data_def io_bind_opt_def io_return_def split: sum.splits option.splits)
qed

lemma ingest_front_at_check:
  assumes "\<not> truthy (PINECONE_API_KEY cfg)"
    and "path_exists w (DATA_DIR cfg)"
    and "glob_pdf w (DATA_DIR cfg) \<noteq> []"
    and "loader_load w (DATA_DIR cfg) = Inr docs0" and "docs0 \<noteq> []"
    and "enrich_metadata w docs0 = Inr docs"
    and "split_documents w docs = Inr chunks" and "chunks \<noteq> []"
  shows "snd (ingest_front cfg w) = Inr None \<and>
         last (fst (ingest_front cfg w)) = Print ''PINECONE_API_KEY is missing. Skipping upload.''"
  using assms
  by (simp add: ingest_front_def io_return_def io_emit_def prints_def Let_def)

text \<open>
  Claim C9, as amended. When \<^verbatim>\<open>GOOGLE_API_KEY\<close> is unset or empty at process start,
  loading the agent module, and with it the server, fails with the \<^verbatim>\<open>ValueError\<close>
  \<^verbatim>\<open>GOOGLE_API_KEY missing\<close> before any client is built, so no query is served; loading the
  ingestion module fails likewise. When the key is set, the agent module does not look at
  \<^verbatim>\<open>PINECONE_API_KEY\<close>: it builds its clients, and what the load does is what their
  constructors do. The ingestion job reads \<^verbatim>\<open>PINECONE_API_KEY\<close> without checking it at
  load; a run without it ends, never calls the Pinecone client, and, when it gets as far
  as the upload step, prints that the key is missing and returns without raising.
\<close>

theorem startup_key_checks:
  "(\<not> truthy (getenv env ''GOOGLE_API_KEY'') \<longrightarrow>
      agent_module env connect = Inl (ValueError ''GOOGLE_API_KEY missing'') \<and>
      server_module env connect = Inl (ValueError ''GOOGLE_API_KEY missing'') \<and>
      ingest_module env = Inl (ValueError ''GOOGLE_API_KEY not found in .env'')) \<and>
   (truthy (getenv env ''GOOGLE_API_KEY'') \<longrightarrow>
      agent_module env connect = connect env (dict_get env ''PINECONE_INDEX_NAME'' ''steel-index'') \<and>
      (\<exists>c. ingest_module env = Inr c \<and> PINECONE_API_KEY c = getenv env ''PINECONE_API_KEY'')) \<and>
   (\<not> truthy (PINECONE_API_KEY cfg) \<longrightarrow>
      (\<exists>evs r. ingest_data cfg w = Some (evs, r) \<and>
         ListIndexes \<notin> set evs \<and> (\<forall>i. CreateIndex i \<notin> set evs) \<and>
         (\<forall>n i. FromDocuments n i \<notin> set evs))) \<and>
   (\<not> truthy (PINECONE_API_KEY cfg) \<and> path_exists w (DATA_DIR cfg) \<and>
    glob_pdf w (DATA_DIR cfg) \<noteq> [] \<and> loader_load w (DATA_DIR cfg) = Inr docs0 \<and> docs0 \<noteq> [] \<and>
    enrich_metadata w docs0 = Inr docs \<and> split_documents w docs = Inr chunks \<and> chunks \<noteq> [] \<longrightarrow>
      (\<exists>evs. ingest_data cfg w = Some (evs, Inr ()) \<and>
         last evs = Print ''PINECONE_API_KEY is missing. Skipping upload.''))"
proof -
  have load: "(\<not> truthy (getenv env ''GOOGLE_API_KEY'') \<longrightarrow>
      agent_module env connect = Inl (ValueError ''GOOGLE_API_KEY missing'') \<and>
      server_module env connect = Inl (ValueError ''GOOGLE_API_KEY missing'') \<and>
      ingest_module env = Inl (ValueError ''GOOGLE_API_KEY not found in .env'')) \<and>
   (truthy (getenv env ''GOOGLE_API_KEY'') \<longrightarrow>
      agent_module env connect = connect env (dict_get env ''PINECONE_INDEX_NAME'' ''steel-index'') \<and>
      (\<exists>c. ingest_module env = Inr c \<and> PINECONE_API_KEY c = getenv env ''PINECONE_API_KEY''))"
    by (simp add: agent_module_def server_module_def ingest_module_def Let_def)
  have quiet: "ListIndexes \<notin> set (fst (ingest_front cfg w)) \<and>
      (\<forall>i. CreateIndex i \<notin> set (fst (ingest_front cfg w))) \<and>
      (\<forall>n i. FromDocuments n i \<notin> set (fst (ingest_front cfg w)))"
    using ingest_front_events [of cfg w] by auto
  have ends: "\<not> truthy (PINECONE_API_KEY cfg) \<longrightarrow>
      (\<exists>evs r. ingest_data cfg w = Some (evs, r) \<and>
         ListIndexes \<notin> set evs \<and> (\<forall>i. CreateIndex i \<notin> set evs) \<and>
         (\<forall>n i. FromDocuments n i \<notin> set evs))"
    using quiet by (simp add: ingest_data_no_key)
  have skips: "\<not> truthy (PINECONE_API_KEY cfg) \<and> path_exists w (DATA_DIR cfg) \<and>
    glob_pdf w (DATA_DIR cfg) \<noteq> [] \<and> loader_load w (DATA_DIR cfg) = Inr docs0 \<and> docs0 \<noteq> [] \<and>
    enrich_metadata w docs0 = Inr docs \<and> split_documents w docs = Inr chunks \<and> chunks \<noteq> [] \<longrightarrow>
      (\<exists>evs. ingest_data cfg w = Some (evs, Inr ()) \<and>
         last evs = Print ''PINECONE_API_KEY is missing. Skipping upload.'')"
    using ingest_front_at_check [of cfg w docs0 docs chunks]
    by (simp add: ingest_data_no_key)
  show ?thesis
    using load ends skips by blast
qed

lemma example_enrich: "enrich_metadata example_world [example_page] = Inr [example_enriched]"
  by (simp add: enrich_doc_def example_world_def example_page_def example_enriched_def
      dict_get_def Let_def)

text \<open>
  No key at all stops the server at load. With the language-model key alone the agent
  module builds its clients, and the ingestion job on one PDF page ends normally after
  reporting the missing Pinecone key.
\<close>

theorem startup_key_checks_witness:
  "\<not> truthy (getenv Map.empty ''GOOGLE_API_KEY'') \<and>
   server_module Map.empty example_connect = Inl (ValueError ''GOOGLE_API_KEY missing'') \<and>
   truthy (getenv google_only ''GOOGLE_API_KEY'') \<and>
   agent_module google_only example_connect = Inr (example_services [example_doc]) \<and>
   \<not> truthy (PINECONE_API_KEY google_only_config) \<and>
   path_exists example_world (DATA_DIR google_only_config) \<and>
   glob_pdf example_world (DATA_DIR google_only_config) \<noteq> [] \<and>
   loader_load example_world (DATA_DIR google_only_config) = Inr [example_page] \<and>
   [example_page] \<noteq> [] \<and>
   enrich_metadata example_world [example_page] = Inr [example_enriched] \<and>
   split_documents example_world [example_enriched] = Inr [example_enriched] \<and>
   [example_enriched] \<noteq> [] \<and>
   (\<exists>evs. ingest_data google_only_config example_world = Some (evs, Inr ()) \<and>
      ListIndexes \<notin> set evs \<and>
      last evs = Print ''PINECONE_API_KEY is missing. Skipping upload.'')"
proof -
  have g0: "\<not> truthy (getenv Map.empty ''GOOGLE_API_KEY'')"
    by (simp add: truthy_def getenv_def)
  have g1: "truthy (getenv google_only ''GOOGLE_API_KEY'')"
    by (simp add: truthy_def getenv_def google_only_def)
  have p: "\<not> truthy (PINECONE_API_KEY google_only_config)"
    by (simp add: truthy_def google_only_config_def)
  have w: "path_exists example_world (DATA_DIR google_only_config)"
    "glob_pdf example_world (DATA_DIR google_only_config) \<noteq> []"
    "loader_load example_world (DATA_DIR google_only_config) = Inr [example_page]"
    "split_documents example_world [example_enriched] = Inr [example_enriched]"
    by (simp_all add: example_world_def example_page_def)
  have c: "example_connect google_only (dict_get google_only ''PINECONE_INDEX_NAME'' ''steel-index'')
             = Inr (example_services [example_doc])"
    by (simp add: example_connect_def)
  show ?thesis
    using startup_key_checks [of Map.empty example_connect google_only_config example_world
        "[example_page]" "[example_enriched]" "[example_enriched]"]
      startup_key_checks [of google_only example_connect google_only_config example_world
        "[example_page]" "[example_enriched]" "[example_enriched]"]
      g0 g1 p w c example_enrich
    by auto
qed

text \<open>
  The claim as first stated has a missing vector-index key stop the start-up with a
  configuration error. With only \<^verbatim>\<open>GOOGLE_API_KEY\<close> set, the ingestion module loads, and
  the job runs to its end and returns normally, having printed that the upload is
  skipped; the check of the agent module passes and hands over to the constructors.
\<close>

theorem missing_pinecone_key_is_not_fatal:
  "ingest_module google_only = Inr google_only_config \<and>
   ingest_data google_only_config example_world =
     Some ([Print (replicate 60 CHR ''=''),
            Print ''SteelIntel Document Ingestion'',
            Print (replicate 60 CHR ''=''),
            Print ''Found 1 PDF files:'',
            Print ''  - ASTM_A106.pdf'',
            Print [],
            Print ''Loading documents...'',
            LoaderLoad ''./data'',
            Print ''Loaded 1 pages from 1 files.'',
            Print ''Enriching metadata...'',
            Print ''Sample metadata: source=ASTM_A106.pdf, page=5'',
            Print ''\<newline>Performing semantic chunking (this may take a while)...'',
            SplitDocuments 1,
            Print ''Created 1 semantic chunks.'',
            Print ''Average chunk size: 33 characters'',
            Print ''\<newline>Connecting to Pinecone...'',
            Print ''PINECONE_API_KEY is missing. Skipping upload.''],
           Inr ()) \<and>
   agent_module google_only example_connect = example_connect google_only ''steel-index''"
proof -
  have p: "\<not> truthy (PINECONE_API_KEY google_only_config)"
    by (simp add: truthy_def google_only_config_def)
  have m: "ingest_module google_only = Inr google_only_config"
    by (simp add: ingest_module_def google_only_def google_only_config_def getenv_def truthy_def
        dict_get_def)
  have a: "agent_module google_only example_connect = example_connect google_only ''steel-index''"
    by (simp add: agent_module_def google_only_def getenv_def truthy_def dict_get_def)
  have f: "ingest_front google_only_config example_world =
     ([Print (replicate 60 CHR ''=''),
            Print ''SteelIntel Document Ingestion'',
            Print (replicate 60 CHR ''=''),
            Print ''Found 1 PDF files:'',
            Print ''  - ASTM_A106.pdf'',
            Print [],
            Print ''Loading documents...'',
            LoaderLoad ''./data'',
            Print ''Loaded 1 pages from 1 files.'',
            Print ''Enriching metadata...'',
            Print ''Sample metadata: source=ASTM_A106.pdf, page=5'',
            Print ''\<newline>Performing semantic chunking (this may take a while)...'',
            SplitDocuments 1,
            Print ''Created 1 semantic chunks.'',
            Print ''Average chunk size: 33 characters'',
            Print ''\<newline>Connecting to Pinecone...'',
            Print ''PINECONE_API_KEY is missing. Skipping upload.''], Inr None)"
    by (simp add: ingest_front_def example_world_def google_only_config_def enrich_doc_def
        dict_get_def prints_def io_emit_def io_return_def truthy_def str_nat.simps
        digit_char_def str_int_def Let_def)
  show ?thesis
    using m a by (simp add: ingest_data_no_key [OF p] f)
qed

end
